theory Spec2Isabelle
  imports Main "HOL-Library.Word"
begin

section \<open>The CC1101 receive-profile demo (\<open>src/CC1101/rx_profile_demo.cpp\<close>)\<close>

text \<open>
  The program is one \<open>main\<close> function: it scans \<open>argv\<close> into four local variables,
  hands them to the radio driver and reports the outcome. Everything the process does
  that an observer can see is recorded, in order, as a list of events: each \<open>printf\<close>
  call (its format string and its arguments), each write to one of the driver's three
  \<open>extern int\<close> slots, and each call of a method of the \<open>CC1100\<close> object
  (which is declared after the loop, so no run that leaves \<open>main\<close> from the loop
  has one).
\<close>

subsection \<open>Observable events\<close>

datatype arg = Arg_str string | Arg_int int

datatype event =
    Printf string "arg list"
  | Radio_set_debug_level int
  | Cc1100_freq_select int
  | Cc1100_mode_select int
  | Cc1100_channel_select int
  | Radio_begin "8 word"
  | Radio_show_register_settings
  | Radio_end

text \<open>A run of \<open>main\<close>: the trace of events, and the exit code it returns.\<close>

datatype run = Returned "event list" int

fun is_driver_event :: "event \<Rightarrow> bool" where
  "is_driver_event (Printf fmt as) = False"
| "is_driver_event e = True"

subsection \<open>\<open>usage()\<close>\<close>

definition usage :: "event list" where
  "usage =
    [Printf ''CC1101 RX Profile Demo\<newline>'' [],
     Printf ''Usage: rx_profile_demo [-mTPMS|-mIoT|-mGFSK100|-mOOK] [options]\<newline>'' [],
     Printf ''Options:\<newline>'' [],
     Printf ''  -addr <dec>       Node address (default 1)\<newline>'' [],
     Printf ''  -freq <1|2|3|4>   ISM band select (default 3=868)\<newline>'' [],
     Printf ''  -channel <n>      Channel (default 0)\<newline>'' [],
     Printf ''  -h                Help\<newline>'' []]"

subsection \<open>The C library's \<open>atoi\<close>\<close>

text \<open>
  \<open>atoi(s)\<close> is \<open>(int) strtol(s, NULL, 10)\<close>. \<open>decimal_value\<close> is the number the
  token spells: white space is skipped, one sign is accepted, and the longest run of
  decimal digits that follows is read (0 when there is none). \<open>strtol\<close> returns that
  number when it fits a \<open>long\<close>, and the nearer of \<open>LONG_MIN\<close> and \<open>LONG_MAX\<close>
  when it does not; the conversion to \<open>int\<close> keeps the low 32 bits as a signed value.
  A \<open>long\<close> is taken to have 64 bits, as under the 64-bit C library.
\<close>

definition isspace :: "char \<Rightarrow> bool" where
  "isspace c \<longleftrightarrow> (of_char c :: nat) = 32 \<or> (9 \<le> (of_char c :: nat) \<and> (of_char c :: nat) \<le> 13)"

definition isdigit :: "char \<Rightarrow> bool" where
  "isdigit c \<longleftrightarrow> 48 \<le> (of_char c :: nat) \<and> (of_char c :: nat) \<le> 57"

fun digits :: "int \<Rightarrow> string \<Rightarrow> int" where
  "digits acc [] = acc"
| "digits acc (c # cs) =
    (if isdigit c then digits (10 * acc + (of_char c - 48)) cs else acc)"

definition decimal_value :: "string \<Rightarrow> int" where
  "decimal_value s =
    (case dropWhile isspace s of
       [] \<Rightarrow> 0
     | c # cs \<Rightarrow>
         if c = CHR ''-'' then - digits 0 cs
         else if c = CHR ''+'' then digits 0 cs
         else digits 0 (c # cs))"

definition LONG_MIN :: int where "LONG_MIN = - (2 ^ 63)"
definition LONG_MAX :: int where "LONG_MAX = 2 ^ 63 - 1"

definition strtol10 :: "string \<Rightarrow> int" where
  "strtol10 s =
    (let v = decimal_value s
     in if v < LONG_MIN then LONG_MIN else if LONG_MAX < v then LONG_MAX else v)"

definition int_of_long :: "int \<Rightarrow> int" where
  "int_of_long v = (v + 2 ^ 31) mod 2 ^ 32 - 2 ^ 31"

definition atoi :: "string \<Rightarrow> int" where
  "atoi s = int_of_long (strtol10 s)"

subsection \<open>The local variables of \<open>main\<close> and the argument loop\<close>

record locals =
  addr :: "8 word"
  mode :: int
  freq :: int
  channel :: int

text \<open>
  \<open>parse_args\<close> is the \<open>for\<close> loop. Its first argument is what is left of \<open>argv\<close>
  from index \<open>i\<close> on, so \<open>i + 1 < argc\<close> says that the rest after the current token
  is not empty, and \<open>argv[++i]\<close> is the head of that rest. The result is \<open>Inl\<close> when
  the loop leaves \<open>main\<close>, and \<open>Inr\<close> with the locals when it runs to the end.
\<close>

fun parse_args :: "string list \<Rightarrow> locals \<Rightarrow> run + locals" where
  "parse_args [] l = Inr l"
| "parse_args (a # rest) l =
    (if a = ''-h'' then Inl (Returned usage 0)
     else if a = ''-mTPMS'' then parse_args rest (l\<lparr>mode := 0x07, freq := 0x02\<rparr>)
     else if a = ''-mIoT'' then parse_args rest (l\<lparr>mode := 0x08, freq := 0x03\<rparr>)
     else if a = ''-mGFSK100'' then parse_args rest (l\<lparr>mode := 0x03\<rparr>)
     else if a = ''-mOOK'' then parse_args rest (l\<lparr>mode := 0x06\<rparr>)
     else if a = ''-addr'' \<and> rest \<noteq> [] then
       parse_args (tl rest) (l\<lparr>addr := word_of_int (atoi (hd rest))\<rparr>)
     else if a = ''-freq'' \<and> rest \<noteq> [] then
       parse_args (tl rest) (l\<lparr>freq := atoi (hd rest)\<rparr>)
     else if a = ''-channel'' \<and> rest \<noteq> [] then
       parse_args (tl rest) (l\<lparr>channel := atoi (hd rest)\<rparr>)
     else Inl (Returned (Printf ''Unknown argument: %s\<newline>'' [Arg_str a] # usage) 1))"

subsection \<open>\<open>main\<close>\<close>

definition init_locals :: locals where
  "init_locals = \<lparr>addr = 1, mode = 0x03, freq = 0x03, channel = 0\<rparr>"

text \<open>
  The driver is a collaborator outside this file. \<open>begin_result\<close> is what its
  \<open>begin\<close> reports at the one call \<open>main\<close> makes: \<open>False\<close> when the call compares
  equal to the header's \<open>FALSE\<close>. The loop starts at \<open>i = 1\<close>, after the program name.
\<close>

definition main :: "bool \<Rightarrow> string list \<Rightarrow> run" where
  "main begin_result argv =
    (case parse_args (tl argv) init_locals of
       Inl r \<Rightarrow> r
     | Inr l \<Rightarrow>
         (let my_addr = addr l;
              configured =
                [Radio_set_debug_level 1,
                 Cc1100_freq_select (freq l),
                 Cc1100_mode_select (mode l),
                 Cc1100_channel_select (channel l),
                 Radio_begin my_addr]
          in if \<not> begin_result then
               Returned
                 (configured @ [Printf ''Failed to init CC1101 (check wiring/SPI).\<newline>'' []]) 2
             else
               Returned
                 (configured @
                  [Printf ''Applied profile mode=0x%02X freq_sel=%d channel=%d addr=%d\<newline>''
                     [Arg_int (mode l), Arg_int (freq l), Arg_int (channel l),
                      Arg_int (uint (addr l))],
                   Radio_show_register_settings,
                   Radio_end]) 0))"

subsection \<open>The command line as a sequence of flags\<close>

text \<open>
  The ordering rule of the specification speaks of flags and of the fields they write.
  The next definitions write that reading down, independently of the loop: a flag is one
  of the four profile switches or one of the three options together with its value
  token, \<open>tokens\<close> is its spelling on the command line, and \<open>writes f fld\<close> is the
  value the specification's table gives field \<open>fld\<close> after flag \<open>f\<close> (\<open>None\<close> when
  the flag leaves the field alone). They are compared with \<open>parse_args\<close> below.
\<close>

datatype field = Field_addr | Field_mode | Field_freq | Field_channel

fun field_value :: "field \<Rightarrow> locals \<Rightarrow> int" where
  "field_value Field_addr l = uint (addr l)"
| "field_value Field_mode l = mode l"
| "field_value Field_freq l = freq l"
| "field_value Field_channel l = channel l"

datatype flag =
    Flag_mTPMS | Flag_mIoT | Flag_mGFSK100 | Flag_mOOK
  | Flag_addr string | Flag_freq string | Flag_channel string

fun tokens :: "flag \<Rightarrow> string list" where
  "tokens Flag_mTPMS = [''-mTPMS'']"
| "tokens Flag_mIoT = [''-mIoT'']"
| "tokens Flag_mGFSK100 = [''-mGFSK100'']"
| "tokens Flag_mOOK = [''-mOOK'']"
| "tokens (Flag_addr v) = [''-addr'', v]"
| "tokens (Flag_freq v) = [''-freq'', v]"
| "tokens (Flag_channel v) = [''-channel'', v]"

definition arguments :: "flag list \<Rightarrow> string list" where
  "arguments fs = concat (map tokens fs)"

fun writes :: "flag \<Rightarrow> field \<Rightarrow> int option" where
  "writes Flag_mTPMS Field_mode = Some 0x07"
| "writes Flag_mTPMS Field_freq = Some 0x02"
| "writes Flag_mIoT Field_mode = Some 0x08"
| "writes Flag_mIoT Field_freq = Some 0x03"
| "writes Flag_mGFSK100 Field_mode = Some 0x03"
| "writes Flag_mOOK Field_mode = Some 0x06"
| "writes (Flag_addr v) Field_addr = Some (atoi v mod 256)"
| "writes (Flag_freq v) Field_freq = Some (atoi v)"
| "writes (Flag_channel v) Field_channel = Some (atoi v)"
| "writes f fld = None"

section \<open>Properties of the loop\<close>

lemmas atoi_eval =
  atoi_def int_of_long_def strtol10_def decimal_value_def isspace_def isdigit_def
  LONG_MIN_def LONG_MAX_def

text \<open>
  The loop works through \<open>argv\<close> from left to right: when it runs through a prefix
  without leaving \<open>main\<close>, it goes on with the rest from the locals it has then.
\<close>

lemma parse_args_append:
  "parse_args pre l0 = Inr l1 \<Longrightarrow> parse_args (pre @ rest) l0 = parse_args rest l1"
proof (induction pre l0 rule: parse_args.induct)
  case (1 l)
  then show ?case by simp
next
  case (2 a rest' l)
  then show ?case
    by (auto split: if_splits simp: neq_Nil_conv)
qed

text \<open>The loop leaves \<open>main\<close> in two ways only, and both print nothing but text.\<close>

lemma parse_args_exits:
  assumes "parse_args args l = Inl (Returned evs code)"
  shows "(evs = usage \<and> code = 0)
       \<or> (\<exists>tok. evs = Printf ''Unknown argument: %s\<newline>'' [Arg_str tok] # usage \<and> code = 1)"
  using assms
proof (induction args l rule: parse_args.induct)
  case (1 l)
  then show ?case by simp
next
  case (2 a rest l)
  then show ?case
    by (auto split: if_splits)
qed

lemma usage_no_driver_event: "filter is_driver_event usage = []"
  by (simp add: usage_def)

lemma main_parsed:
  assumes "parse_args (tl argv) init_locals = Inr l"
  shows "main begin_result argv =
    (if begin_result then
       Returned
         [Radio_set_debug_level 1, Cc1100_freq_select (freq l), Cc1100_mode_select (mode l),
          Cc1100_channel_select (channel l), Radio_begin (addr l),
          Printf ''Applied profile mode=0x%02X freq_sel=%d channel=%d addr=%d\<newline>''
            [Arg_int (mode l), Arg_int (freq l), Arg_int (channel l), Arg_int (uint (addr l))],
          Radio_show_register_settings, Radio_end] 0
     else
       Returned
         [Radio_set_debug_level 1, Cc1100_freq_select (freq l), Cc1100_mode_select (mode l),
          Cc1100_channel_select (channel l), Radio_begin (addr l),
          Printf ''Failed to init CC1101 (check wiring/SPI).\<newline>'' []] 2)"
  using assms by (simp add: main_def)

lemma main_exited:
  assumes "parse_args (tl argv) init_locals = Inl r"
  shows "main begin_result argv = r"
  using assms by (simp add: main_def)

lemma uint_addr_cast: "uint (word_of_int n :: 8 word) = n mod 256"
  by (simp add: uint_word_of_int take_bit_eq_mod)

subsection \<open>\<open>atoi\<close> on a token whose value fits a \<open>long\<close>\<close>

lemma int_of_long_mod_256: "int_of_long v mod 256 = v mod 256"
proof -
  have d: "(256::int) dvd 2 ^ 32" by simp
  have "int_of_long v mod 256 = ((v + 2 ^ 31) mod 2 ^ 32 mod 256 - 2 ^ 31 mod 256) mod 256"
    unfolding int_of_long_def by (rule mod_diff_eq [symmetric])
  also have "(v + 2 ^ 31) mod 2 ^ 32 mod 256 = (v + 2 ^ 31) mod 256"
    by (rule mod_mod_cancel [OF d])
  also have "((v + 2 ^ 31) mod 256 - 2 ^ 31 mod 256) mod 256 = (v + 2 ^ 31 - 2 ^ 31) mod 256"
    by (rule mod_diff_eq)
  finally show ?thesis by simp
qed

lemma strtol10_in_range:
  "LONG_MIN \<le> decimal_value s \<Longrightarrow> decimal_value s \<le> LONG_MAX \<Longrightarrow> strtol10 s = decimal_value s"
  by (simp add: strtol10_def)

lemma uint8_of_atoi:
  assumes "LONG_MIN \<le> decimal_value s" and "decimal_value s \<le> LONG_MAX"
  shows "(word_of_int (atoi s) :: 8 word) = word_of_int (decimal_value s)"
proof -
  have "atoi s mod 256 = decimal_value s mod 256"
    by (simp add: atoi_def int_of_long_mod_256 strtol10_in_range [OF assms])
  then show ?thesis
    by (simp add: word_of_int_eq_iff take_bit_eq_mod)
qed

subsection \<open>The loop on a sequence of flags\<close>

text \<open>One flag takes the loop past its tokens, and changes the fields as \<open>writes\<close> says.\<close>

lemma arguments_Cons: "arguments (f # fs) = tokens f @ arguments fs"
  by (simp add: arguments_def)

lemma arguments_append: "arguments (fs @ gs) = arguments fs @ arguments gs"
  by (simp add: arguments_def)

lemma parse_flag_step:
  "\<exists>l'. parse_args (tokens f @ rest) l = parse_args rest l'
        \<and> (\<forall>fld. field_value fld l' = (case writes f fld of Some v \<Rightarrow> v | None \<Rightarrow> field_value fld l))"
proof (cases f)
  case Flag_mTPMS
  have "field_value fld (l\<lparr>mode := 7, freq := 2\<rparr>)
          = (case writes Flag_mTPMS fld of Some v \<Rightarrow> v | None \<Rightarrow> field_value fld l)"
    for fld by (cases fld) simp_all
  with Flag_mTPMS show ?thesis by (intro exI [of _ "l\<lparr>mode := 7, freq := 2\<rparr>"]) simp
next
  case Flag_mIoT
  have "field_value fld (l\<lparr>mode := 8, freq := 3\<rparr>)
          = (case writes Flag_mIoT fld of Some v \<Rightarrow> v | None \<Rightarrow> field_value fld l)"
    for fld by (cases fld) simp_all
  with Flag_mIoT show ?thesis by (intro exI [of _ "l\<lparr>mode := 8, freq := 3\<rparr>"]) simp
next
  case Flag_mGFSK100
  have "field_value fld (l\<lparr>mode := 3\<rparr>)
          = (case writes Flag_mGFSK100 fld of Some v \<Rightarrow> v | None \<Rightarrow> field_value fld l)"
    for fld by (cases fld) simp_all
  with Flag_mGFSK100 show ?thesis by (intro exI [of _ "l\<lparr>mode := 3\<rparr>"]) simp
next
  case Flag_mOOK
  have "field_value fld (l\<lparr>mode := 6\<rparr>)
          = (case writes Flag_mOOK fld of Some v \<Rightarrow> v | None \<Rightarrow> field_value fld l)"
    for fld by (cases fld) simp_all
  with Flag_mOOK show ?thesis by (intro exI [of _ "l\<lparr>mode := 6\<rparr>"]) simp
next
  case (Flag_addr v)
  have "field_value fld (l\<lparr>addr := word_of_int (atoi v)\<rparr>)
          = (case writes (Flag_addr v) fld of Some v \<Rightarrow> v | None \<Rightarrow> field_value fld l)"
    for fld by (cases fld) (simp_all add: uint_addr_cast)
  with Flag_addr show ?thesis by (intro exI [of _ "l\<lparr>addr := word_of_int (atoi v)\<rparr>"]) simp
next
  case (Flag_freq v)
  have "field_value fld (l\<lparr>freq := atoi v\<rparr>)
          = (case writes (Flag_freq v) fld of Some v \<Rightarrow> v | None \<Rightarrow> field_value fld l)"
    for fld by (cases fld) simp_all
  with Flag_freq show ?thesis by (intro exI [of _ "l\<lparr>freq := atoi v\<rparr>"]) simp
next
  case (Flag_channel v)
  have "field_value fld (l\<lparr>channel := atoi v\<rparr>)
          = (case writes (Flag_channel v) fld of Some v \<Rightarrow> v | None \<Rightarrow> field_value fld l)"
    for fld by (cases fld) simp_all
  with Flag_channel show ?thesis by (intro exI [of _ "l\<lparr>channel := atoi v\<rparr>"]) simp
qed

lemma parse_flags_keep:
  assumes "\<forall>g \<in> set fs. writes g fld = None"
  shows "\<exists>l'. parse_args (arguments fs) l = Inr l' \<and> field_value fld l' = field_value fld l"
  using assms
proof (induction fs arbitrary: l)
  case Nil
  then show ?case by (simp add: arguments_def)
next
  case (Cons f fs)
  from Cons.prems have w: "writes f fld = None" by simp
  from parse_flag_step [of f "arguments fs" l] obtain l1 where
    s: "parse_args (tokens f @ arguments fs) l = parse_args (arguments fs) l1"
    and v: "field_value fld l1 = field_value fld l"
    using w by fastforce
  from Cons.IH [of l1] Cons.prems obtain l' where
    "parse_args (arguments fs) l1 = Inr l'" "field_value fld l' = field_value fld l1"
    by auto
  with s v show ?case by (simp add: arguments_Cons)
qed

lemma parse_flags_complete: "\<exists>l'. parse_args (arguments fs) l = Inr l'"
proof (induction fs arbitrary: l)
  case Nil
  then show ?case by (simp add: arguments_def)
next
  case (Cons f fs)
  from parse_flag_step [of f "arguments fs" l] obtain l1 where
    s: "parse_args (tokens f @ arguments fs) l = parse_args (arguments fs) l1"
    by blast
  from Cons.IH [of l1] obtain l' where "parse_args (arguments fs) l1 = Inr l'"
    by auto
  with s show ?case by (simp add: arguments_Cons)
qed

lemma last_writer:
  assumes f: "writes f fld = Some v"
      and post: "\<forall>g \<in> set post. writes g fld = None"
  shows "\<exists>l. parse_args (arguments (pre @ f # post)) l0 = Inr l \<and> field_value fld l = v"
proof -
  from parse_flags_complete [of pre l0] obtain l1 where
    1: "parse_args (arguments pre) l0 = Inr l1" by blast
  from parse_flag_step [of f "arguments post" l1] f obtain l2 where
    2: "parse_args (tokens f @ arguments post) l1 = parse_args (arguments post) l2"
    and v: "field_value fld l2 = v"
    by fastforce
  from parse_flags_keep [OF post, of l2] obtain l3 where
    3: "parse_args (arguments post) l2 = Inr l3" and k: "field_value fld l3 = field_value fld l2"
    by blast
  have "parse_args (arguments (pre @ f # post)) l0 = Inr l3"
    using parse_args_append [OF 1, of "tokens f @ arguments post"] 2 3
    by (simp add: arguments_append arguments_Cons)
  with v k show ?thesis by simp
qed

text \<open>
  Conversely, every argument list the loop runs through to its end is a sequence of
  flags, so the statements about \<open>arguments fs\<close> speak of all of them.
\<close>

lemma parse_args_head:
  assumes "parse_args (a # rest) l = Inr l'"
  shows "\<exists>f rest' l1. a # rest = tokens f @ rest' \<and> parse_args rest' l1 = Inr l'"
proof -
  have nh: "a \<noteq> ''-h''" using assms by (auto split: if_splits)
  show ?thesis
  proof (cases "a = ''-mTPMS''")
    case True
    with assms have "a # rest = tokens Flag_mTPMS @ rest
        \<and> parse_args rest (l\<lparr>mode := 0x07, freq := 0x02\<rparr>) = Inr l'" by simp
    then show ?thesis by blast
  next
    case n1: False
    show ?thesis
    proof (cases "a = ''-mIoT''")
      case True
      with assms have "a # rest = tokens Flag_mIoT @ rest
          \<and> parse_args rest (l\<lparr>mode := 0x08, freq := 0x03\<rparr>) = Inr l'" by simp
      then show ?thesis by blast
    next
      case n2: False
      show ?thesis
      proof (cases "a = ''-mGFSK100''")
        case True
        with assms have "a # rest = tokens Flag_mGFSK100 @ rest
            \<and> parse_args rest (l\<lparr>mode := 0x03\<rparr>) = Inr l'" by simp
        then show ?thesis by blast
      next
        case n3: False
        show ?thesis
        proof (cases "a = ''-mOOK''")
          case True
          with assms have "a # rest = tokens Flag_mOOK @ rest
              \<and> parse_args rest (l\<lparr>mode := 0x06\<rparr>) = Inr l'" by simp
          then show ?thesis by blast
        next
          case n4: False
          from assms nh n1 n2 n3 n4 have ne: "rest \<noteq> []"
            by (cases rest) simp_all
          then obtain v rest' where r: "rest = v # rest'" by (cases rest) auto
          show ?thesis
          proof (cases "a = ''-addr''")
            case True
            with assms r have "a # rest = tokens (Flag_addr v) @ rest'
                \<and> parse_args rest' (l\<lparr>addr := word_of_int (atoi v)\<rparr>) = Inr l'" by simp
            then show ?thesis by blast
          next
            case n5: False
            show ?thesis
            proof (cases "a = ''-freq''")
              case True
              with assms r have "a # rest = tokens (Flag_freq v) @ rest'
                  \<and> parse_args rest' (l\<lparr>freq := atoi v\<rparr>) = Inr l'" by simp
              then show ?thesis by blast
            next
              case n6: False
              with assms nh n1 n2 n3 n4 n5 have c: "a = ''-channel''"
                by (simp split: if_splits)
              with assms r have "a # rest = tokens (Flag_channel v) @ rest'
                  \<and> parse_args rest' (l\<lparr>channel := atoi v\<rparr>) = Inr l'" by simp
              then show ?thesis by blast
            qed
          qed
        qed
      qed
    qed
  qed
qed

lemma parsed_arguments:
  "parse_args args l = Inr l' \<Longrightarrow> \<exists>fs. args = arguments fs"
proof (induction "length args" arbitrary: args l rule: less_induct)
  case less
  show ?case
  proof (cases args)
    case Nil
    have "[] = arguments []" by (simp add: arguments_def)
    with Nil show ?thesis by blast
  next
    case (Cons a rest)
    with less.prems parse_args_head [of a rest l l'] obtain f rest' l1 where
      h: "a # rest = tokens f @ rest'" "parse_args rest' l1 = Inr l'"
      by blast
    have "length rest' < length args"
      using h(1) Cons by (cases f) auto
    from less.hyps [OF this h(2)] obtain fs where "rest' = arguments fs" by blast
    with h Cons have "args = arguments (f # fs)"
      by (simp add: arguments_Cons)
    then show ?thesis by blast
  qed
qed

section \<open>The claims\<close>

subsection \<open>C1: the profile table\<close>

text \<open>
  C1. Whenever the loop comes to a profile flag, after any prefix of arguments it has run
  through, it goes on with the locals changed as the table says: \<open>-mTPMS\<close> sets
  \<open>mode\<close> to 0x07 and \<open>freq\<close> to 0x02, \<open>-mIoT\<close> sets them to 0x08 and 0x03,
  \<open>-mGFSK100\<close> sets \<open>mode\<close> to 0x03 and \<open>-mOOK\<close> sets it to 0x06, both leaving
  \<open>freq\<close> (and every other local) as it was.
\<close>

theorem profile_flag_table:
  assumes "parse_args pre l0 = Inr l1"
  shows "parse_args (pre @ ''-mTPMS'' # rest) l0 = parse_args rest (l1\<lparr>mode := 0x07, freq := 0x02\<rparr>)
       \<and> parse_args (pre @ ''-mIoT'' # rest) l0 = parse_args rest (l1\<lparr>mode := 0x08, freq := 0x03\<rparr>)
       \<and> parse_args (pre @ ''-mGFSK100'' # rest) l0 = parse_args rest (l1\<lparr>mode := 0x03\<rparr>)
       \<and> parse_args (pre @ ''-mOOK'' # rest) l0 = parse_args rest (l1\<lparr>mode := 0x06\<rparr>)"
  by (simp add: parse_args_append [OF assms])

text \<open>The table after \<open>-freq 4\<close>: the two modulation flags keep band 4.\<close>

theorem profile_flag_table_witness:
  "parse_args [''-freq'', ''4''] init_locals = Inr \<lparr>addr = 1, mode = 3, freq = 4, channel = 0\<rparr>
   \<and> parse_args ([''-freq'', ''4''] @ [''-mTPMS'']) init_locals
       = Inr \<lparr>addr = 1, mode = 7, freq = 2, channel = 0\<rparr>
   \<and> parse_args ([''-freq'', ''4''] @ [''-mIoT'']) init_locals
       = Inr \<lparr>addr = 1, mode = 8, freq = 3, channel = 0\<rparr>
   \<and> parse_args ([''-freq'', ''4''] @ [''-mGFSK100'']) init_locals
       = Inr \<lparr>addr = 1, mode = 3, freq = 4, channel = 0\<rparr>
   \<and> parse_args ([''-freq'', ''4''] @ [''-mOOK'']) init_locals
       = Inr \<lparr>addr = 1, mode = 6, freq = 4, channel = 0\<rparr>"
proof -
  have h: "parse_args [''-freq'', ''4''] init_locals
             = Inr \<lparr>addr = 1, mode = 3, freq = 4, channel = 0\<rparr>"
    by (simp add: init_locals_def atoi_eval)
  show ?thesis
    using h profile_flag_table [OF h, of "[]"] by simp
qed

subsection \<open>C2: the defaults\<close>

text \<open>
  C2. With the program name alone in \<open>argv\<close>, the loop ends with \<open>mode = 0x03\<close>,
  \<open>freq = 0x03\<close>, \<open>channel = 0\<close> and \<open>addr = 1\<close>, and these are the values \<open>main\<close>
  gives the driver.
\<close>

theorem default_configuration:
  "parse_args (tl [prog]) init_locals = Inr \<lparr>addr = 1, mode = 0x03, freq = 0x03, channel = 0\<rparr>
   \<and> main True [prog] =
       Returned
         [Radio_set_debug_level 1, Cc1100_freq_select 0x03, Cc1100_mode_select 0x03,
          Cc1100_channel_select 0, Radio_begin 1,
          Printf ''Applied profile mode=0x%02X freq_sel=%d channel=%d addr=%d\<newline>''
            [Arg_int 0x03, Arg_int 0x03, Arg_int 0, Arg_int 1],
          Radio_show_register_settings, Radio_end] 0"
  by (simp add: main_def init_locals_def)

subsection \<open>C3: the later flag wins\<close>

text \<open>
  C3. Arguments are processed from left to right, and the last flag that writes a field
  decides its final value. The loop run on a prefix and then on the rest is the loop run
  on the whole list; every list it runs through is a sequence of flags; and in such a
  sequence, when flag \<open>f\<close> writes \<open>v\<close> to a field and no flag after \<open>f\<close> writes
  that field, the field ends as \<open>v\<close>, whatever the flags before \<open>f\<close> wrote. In
  particular \<open>-mTPMS -freq 4\<close> ends with \<open>freq = 4\<close> and \<open>-freq 4 -mTPMS\<close> with
  \<open>freq = 0x02\<close>.
\<close>

theorem last_flag_wins:
  "(\<forall>pre rest l0 l1. parse_args pre l0 = Inr l1 \<longrightarrow> parse_args (pre @ rest) l0 = parse_args rest l1)
   \<and> (\<forall>args l0 l. parse_args args l0 = Inr l \<longrightarrow> (\<exists>fs. args = arguments fs))
   \<and> (\<forall>pre f post fld v l0.
          writes f fld = Some v
          \<and> (\<forall>g \<in> set post. writes g fld = None)
          \<longrightarrow> (\<exists>l. parse_args (arguments (pre @ f # post)) l0 = Inr l \<and> field_value fld l = v))
   \<and> parse_args (tl [prog, ''-mTPMS'', ''-freq'', ''4'']) init_locals
        = Inr \<lparr>addr = 1, mode = 0x07, freq = 4, channel = 0\<rparr>
   \<and> parse_args (tl [prog, ''-freq'', ''4'', ''-mTPMS'']) init_locals
        = Inr \<lparr>addr = 1, mode = 0x07, freq = 0x02, channel = 0\<rparr>"
proof (intro conjI allI impI)
  fix pre rest l0 l1
  assume "parse_args pre l0 = Inr l1"
  then show "parse_args (pre @ rest) l0 = parse_args rest l1"
    by (rule parse_args_append)
next
  fix args l0 l
  assume "parse_args args l0 = Inr l"
  then show "\<exists>fs. args = arguments fs"
    by (rule parsed_arguments)
next
  fix pre f post fld v l0
  assume a: "writes f fld = Some v \<and> (\<forall>g \<in> set post. writes g fld = None)"
  then have "writes f fld = Some v" "\<forall>g \<in> set post. writes g fld = None"
    by simp_all
  then show "\<exists>l. parse_args (arguments (pre @ f # post)) l0 = Inr l \<and> field_value fld l = v"
    by (rule last_writer)
next
  show "parse_args (tl [prog, ''-mTPMS'', ''-freq'', ''4'']) init_locals
        = Inr \<lparr>addr = 1, mode = 0x07, freq = 4, channel = 0\<rparr>"
    by (simp add: init_locals_def atoi_eval)
next
  show "parse_args (tl [prog, ''-freq'', ''4'', ''-mTPMS'']) init_locals
        = Inr \<lparr>addr = 1, mode = 0x07, freq = 0x02, channel = 0\<rparr>"
    by (simp add: init_locals_def atoi_eval)
qed

text \<open>\<open>-mTPMS\<close> between \<open>-freq 4\<close> and two flags that leave \<open>freq\<close> alone.\<close>

theorem last_flag_wins_witness:
  "writes Flag_mTPMS Field_freq = Some 2
   \<and> writes (Flag_addr ''9'') Field_freq = None \<and> writes Flag_mOOK Field_freq = None
   \<and> (\<exists>l. parse_args [''-freq'', ''4'', ''-mTPMS'', ''-addr'', ''9'', ''-mOOK''] init_locals = Inr l
          \<and> freq l = 2)"
proof -
  have w: "writes Flag_mTPMS Field_freq = Some 2
     \<and> writes (Flag_addr ''9'') Field_freq = None \<and> writes Flag_mOOK Field_freq = None"
    by simp
  then have h:
    "writes Flag_mTPMS Field_freq = Some 2
     \<and> (\<forall>g \<in> set [Flag_addr ''9'', Flag_mOOK]. writes g Field_freq = None)"
    by simp
  from last_flag_wins [of "''rx_profile_demo''"]
  have "\<forall>pre f post fld v l0.
          writes f fld = Some v
          \<and> (\<forall>g \<in> set post. writes g fld = None)
          \<longrightarrow> (\<exists>l. parse_args (arguments (pre @ f # post)) l0 = Inr l \<and> field_value fld l = v)"
    by blast
  from this [rule_format, OF h, of "[Flag_freq ''4'']" init_locals] w show ?thesis
    by (simp add: arguments_def)
qed

subsection \<open>C4: the driver fails to initialise\<close>

text \<open>
  C4. In a run where \<open>begin\<close> reports failure and has been called, \<open>main\<close> returns 2,
  the diagnostic has been printed, and neither \<open>show_register_settings\<close> nor \<open>end\<close>
  has been called.
\<close>

theorem driver_init_failure:
  assumes "main False argv = Returned evs code"
      and "Radio_begin a \<in> set evs"
  shows "code = 2
       \<and> Printf ''Failed to init CC1101 (check wiring/SPI).\<newline>'' [] \<in> set evs
       \<and> Radio_show_register_settings \<notin> set evs
       \<and> Radio_end \<notin> set evs"
proof (cases "parse_args (tl argv) init_locals")
  case (Inl r)
  with assms(1) have r: "parse_args (tl argv) init_locals = Inl (Returned evs code)"
    by (simp add: main_exited)
  from parse_args_exits [OF r] assms(2) show ?thesis
    by (auto simp: usage_def)
next
  case (Inr l)
  from main_parsed [OF Inr, of False] assms show ?thesis
    by auto
qed

text \<open>A failing \<open>begin\<close> on the default configuration.\<close>

theorem driver_init_failure_witness:
  "main False [''rx_profile_demo''] =
     Returned
       [Radio_set_debug_level 1, Cc1100_freq_select 3, Cc1100_mode_select 3,
        Cc1100_channel_select 0, Radio_begin 1,
        Printf ''Failed to init CC1101 (check wiring/SPI).\<newline>'' []] 2
   \<and> Radio_begin 1 \<in> set
       [Radio_set_debug_level 1, Cc1100_freq_select 3, Cc1100_mode_select 3,
        Cc1100_channel_select 0, Radio_begin 1,
        Printf ''Failed to init CC1101 (check wiring/SPI).\<newline>'' []]
   \<and> Radio_show_register_settings \<notin> set
       [Radio_set_debug_level 1, Cc1100_freq_select 3, Cc1100_mode_select 3,
        Cc1100_channel_select 0, Radio_begin 1,
        Printf ''Failed to init CC1101 (check wiring/SPI).\<newline>'' []]"
proof -
  have h: "main False [''rx_profile_demo''] =
     Returned
       [Radio_set_debug_level 1, Cc1100_freq_select 3, Cc1100_mode_select 3,
        Cc1100_channel_select 0, Radio_begin 1,
        Printf ''Failed to init CC1101 (check wiring/SPI).\<newline>'' []] 2"
    by (simp add: main_def init_locals_def)
  have b: "Radio_begin 1 \<in> set
       [Radio_set_debug_level 1, Cc1100_freq_select 3, Cc1100_mode_select 3,
        Cc1100_channel_select 0, Radio_begin 1,
        Printf ''Failed to init CC1101 (check wiring/SPI).\<newline>'' []]"
    by simp
  show ?thesis
    using h b driver_init_failure [OF h b] by simp
qed

subsection \<open>C5: an unknown argument\<close>

text \<open>
  C5. When the loop comes to a token that is none of the eight flags, after any prefix it
  has run through, \<open>main\<close> prints the message with that token, then the usage text,
  and returns 1, whatever follows the token; the driver is not touched.
\<close>

theorem unknown_argument:
  assumes "parse_args pre init_locals = Inr l"
      and "tok \<notin> {''-h'', ''-mTPMS'', ''-mIoT'', ''-mGFSK100'', ''-mOOK'',
                  ''-addr'', ''-freq'', ''-channel''}"
  shows "main begin_result (prog # pre @ tok # rest) =
           Returned (Printf ''Unknown argument: %s\<newline>'' [Arg_str tok] # usage) 1
       \<and> filter is_driver_event (Printf ''Unknown argument: %s\<newline>'' [Arg_str tok] # usage) = []"
proof -
  have "parse_args (pre @ tok # rest) init_locals = parse_args (tok # rest) l"
    by (rule parse_args_append [OF assms(1)])
  also have "\<dots> = Inl (Returned (Printf ''Unknown argument: %s\<newline>'' [Arg_str tok] # usage) 1)"
    using assms(2) by simp
  finally show ?thesis
    by (simp add: main_def usage_no_driver_event)
qed

text \<open>\<open>-bogus\<close> after \<open>-mOOK\<close> and before \<open>-h\<close>.\<close>

theorem unknown_argument_witness:
  "main True [''rx_profile_demo'', ''-mOOK'', ''-bogus'', ''-h''] =
     Returned (Printf ''Unknown argument: %s\<newline>'' [Arg_str ''-bogus''] # usage) 1"
proof -
  have h: "parse_args [''-mOOK''] init_locals = Inr (init_locals\<lparr>mode := 6\<rparr>)"
    by simp
  have t: "''-bogus'' \<notin> {''-h'', ''-mTPMS'', ''-mIoT'', ''-mGFSK100'', ''-mOOK'',
                  ''-addr'', ''-freq'', ''-channel''}"
    by simp
  show ?thesis
    using unknown_argument [OF h t, of True "''rx_profile_demo''" "[''-h'']"] by simp
qed

subsection \<open>C6: a value flag with no value\<close>

text \<open>
  C6. The specification has a value flag without a value dropped in silence; the code
  reports it. When the loop comes to \<open>-addr\<close>, \<open>-freq\<close> or \<open>-channel\<close> as the last
  token, after a prefix it has run through, the guard \<open>i + 1 < argc\<close> fails, nothing
  is consumed, and the token falls to the last branch: \<open>main\<close> prints the
  unknown-argument message with that flag, then the usage text, and returns 1 without
  touching the driver.
\<close>

theorem dangling_value_flag:
  assumes "parse_args pre init_locals = Inr l"
      and "flag \<in> {''-addr'', ''-freq'', ''-channel''}"
  shows "main begin_result (prog # pre @ [flag]) =
           Returned (Printf ''Unknown argument: %s\<newline>'' [Arg_str flag] # usage) 1
       \<and> filter is_driver_event (Printf ''Unknown argument: %s\<newline>'' [Arg_str flag] # usage) = []"
proof -
  have "parse_args (pre @ [flag]) init_locals = parse_args [flag] l"
    by (rule parse_args_append [OF assms(1)])
  also have "\<dots> = Inl (Returned (Printf ''Unknown argument: %s\<newline>'' [Arg_str flag] # usage) 1)"
    using assms(2) by auto
  finally show ?thesis
    by (simp add: main_def usage_no_driver_event)
qed

text \<open>\<open>-channel\<close> as the last token, after \<open>-mIoT\<close>.\<close>

theorem dangling_value_flag_witness:
  "main False [''rx_profile_demo'', ''-mIoT'', ''-channel''] =
     Returned (Printf ''Unknown argument: %s\<newline>'' [Arg_str ''-channel''] # usage) 1"
proof -
  have h: "parse_args [''-mIoT''] init_locals = Inr (init_locals\<lparr>mode := 8, freq := 3\<rparr>)"
    by simp
  have f: "''-channel'' \<in> {''-addr'', ''-freq'', ''-channel''}"
    by simp
  show ?thesis
    using dangling_value_flag [OF h f, of False "''rx_profile_demo''"] by simp
qed

text \<open>
  The flag is not dropped in silence: \<open>-addr\<close> alone is reported and ends the run
  with 1, which is not the run without it.
\<close>

theorem dangling_value_flag_counterexample:
  "main True [''rx_profile_demo'', ''-addr''] =
     Returned (Printf ''Unknown argument: %s\<newline>'' [Arg_str ''-addr''] # usage) 1
   \<and> main True [''rx_profile_demo'', ''-addr''] \<noteq> main True [''rx_profile_demo'']"
  by (simp add: main_def init_locals_def)

subsection \<open>C7: help\<close>

text \<open>
  C7. Help is given where the loop comes to \<open>-h\<close>, not wherever the token stands.
  When the loop comes to the token \<open>-h\<close>, after a prefix it has run through,
  \<open>main\<close> prints the usage text and returns 0, whatever follows, and the driver is
  not touched.
\<close>

theorem help_when_reached:
  assumes "parse_args pre init_locals = Inr l"
  shows "main begin_result (prog # pre @ ''-h'' # rest) = Returned usage 0
       \<and> filter is_driver_event usage = []"
proof -
  have "parse_args (pre @ ''-h'' # rest) init_locals = parse_args (''-h'' # rest) l"
    by (rule parse_args_append [OF assms])
  then show ?thesis
    by (simp add: main_def usage_no_driver_event)
qed

text \<open>\<open>-h\<close> after \<open>-mTPMS\<close> and before an unknown token.\<close>

theorem help_when_reached_witness:
  "main True [''rx_profile_demo'', ''-mTPMS'', ''-h'', ''-bogus''] = Returned usage 0"
proof -
  have h: "parse_args [''-mTPMS''] init_locals = Inr (init_locals\<lparr>mode := 7, freq := 2\<rparr>)"
    by simp
  show ?thesis
    using help_when_reached [OF h, of True "''rx_profile_demo''" "[''-bogus'']"] by simp
qed

text \<open>
  A \<open>-h\<close> the loop does not come to has no effect: behind an unknown token the run
  ends with 1, and behind \<open>-channel\<close> it is the channel's value (\<open>atoi\<close> gives 0)
  and the driver is configured.
\<close>

theorem help_anywhere_counterexample:
  "main True [''rx_profile_demo'', ''-bogus'', ''-h''] =
     Returned (Printf ''Unknown argument: %s\<newline>'' [Arg_str ''-bogus''] # usage) 1
   \<and> main False [''rx_profile_demo'', ''-channel'', ''-h''] =
     Returned
       [Radio_set_debug_level 1, Cc1100_freq_select 3, Cc1100_mode_select 3,
        Cc1100_channel_select 0, Radio_begin 1,
        Printf ''Failed to init CC1101 (check wiring/SPI).\<newline>'' []] 2"
  by (simp add: main_def init_locals_def atoi_eval)

subsection \<open>C8: the node address\<close>

text \<open>
  C8. \<open>-addr\<close> followed by a token gives \<open>atoi\<close> of that token, cast to
  \<open>uint8_t\<close>, to \<open>addr\<close>. When the loop comes to \<open>-addr\<close>, after a prefix it has
  run through, and the number the next token spells fits a \<open>long\<close> (as every value
  of an \<open>int\<close> does), the address is that number \<open>mod 256\<close>. \<open>-addr 200\<close> gives
  200 and \<open>-addr 300\<close> gives 44.
\<close>

theorem addr_truncated_to_8_bits:
  "(\<forall>pre l0 l1 v rest.
       parse_args pre l0 = Inr l1 \<and> LONG_MIN \<le> decimal_value v \<and> decimal_value v \<le> LONG_MAX \<longrightarrow>
         parse_args (pre @ ''-addr'' # v # rest) l0
           = parse_args rest (l1\<lparr>addr := word_of_int (decimal_value v)\<rparr>)
         \<and> uint (addr (l1\<lparr>addr := word_of_int (decimal_value v)\<rparr>)) = decimal_value v mod 256)
   \<and> decimal_value ''200'' = 200
   \<and> parse_args (tl [prog, ''-addr'', ''200'']) init_locals
        = Inr \<lparr>addr = 200, mode = 0x03, freq = 0x03, channel = 0\<rparr>
   \<and> decimal_value ''300'' = 300
   \<and> parse_args (tl [prog, ''-addr'', ''300'']) init_locals
        = Inr \<lparr>addr = 44, mode = 0x03, freq = 0x03, channel = 0\<rparr>"
proof (intro conjI allI impI)
  fix pre l0 l1 v rest
  assume a: "parse_args pre l0 = Inr l1 \<and> LONG_MIN \<le> decimal_value v \<and> decimal_value v \<le> LONG_MAX"
  then have "parse_args (pre @ ''-addr'' # v # rest) l0 = parse_args (''-addr'' # v # rest) l1"
    by (simp add: parse_args_append)
  moreover from a have "(word_of_int (atoi v) :: 8 word) = word_of_int (decimal_value v)"
    by (simp add: uint8_of_atoi)
  ultimately show "parse_args (pre @ ''-addr'' # v # rest) l0
                 = parse_args rest (l1\<lparr>addr := word_of_int (decimal_value v)\<rparr>)"
    by simp
  show "uint (addr (l1\<lparr>addr := word_of_int (decimal_value v)\<rparr>)) = decimal_value v mod 256"
    by (simp add: uint_addr_cast)
next
  show "decimal_value ''200'' = 200" by (simp add: atoi_eval)
next
  show "decimal_value ''300'' = 300" by (simp add: atoi_eval)
next
  show "parse_args (tl [prog, ''-addr'', ''200'']) init_locals
        = Inr \<lparr>addr = 200, mode = 0x03, freq = 0x03, channel = 0\<rparr>"
    by (simp add: init_locals_def atoi_eval)
next
  show "parse_args (tl [prog, ''-addr'', ''300'']) init_locals
        = Inr \<lparr>addr = 44, mode = 0x03, freq = 0x03, channel = 0\<rparr>"
    by (simp add: init_locals_def atoi_eval)
qed

text \<open>\<open>-addr -1\<close> after \<open>-mIoT\<close>: the address is 255.\<close>

theorem addr_truncated_to_8_bits_witness:
  "parse_args [''-mIoT''] init_locals = Inr \<lparr>addr = 1, mode = 8, freq = 3, channel = 0\<rparr>
   \<and> LONG_MIN \<le> decimal_value ''-1'' \<and> decimal_value ''-1'' \<le> LONG_MAX
   \<and> decimal_value ''-1'' = - 1
   \<and> parse_args ([''-mIoT''] @ [''-addr'', ''-1'']) init_locals
        = Inr \<lparr>addr = 255, mode = 8, freq = 3, channel = 0\<rparr>"
proof -
  have v: "decimal_value ''-1'' = - 1"
    by (simp add: atoi_eval)
  have h: "parse_args [''-mIoT''] init_locals = Inr \<lparr>addr = 1, mode = 8, freq = 3, channel = 0\<rparr>
           \<and> LONG_MIN \<le> decimal_value ''-1'' \<and> decimal_value ''-1'' \<le> LONG_MAX"
    by (simp add: init_locals_def v LONG_MIN_def LONG_MAX_def)
  from addr_truncated_to_8_bits [of "''rx_profile_demo''"]
  have "\<forall>pre l0 l1 v rest.
       parse_args pre l0 = Inr l1 \<and> LONG_MIN \<le> decimal_value v \<and> decimal_value v \<le> LONG_MAX \<longrightarrow>
         parse_args (pre @ ''-addr'' # v # rest) l0
           = parse_args rest (l1\<lparr>addr := word_of_int (decimal_value v)\<rparr>)
         \<and> uint (addr (l1\<lparr>addr := word_of_int (decimal_value v)\<rparr>)) = decimal_value v mod 256"
    by blast
  from this [rule_format, OF h, of "[]"] h v show ?thesis
    by simp
qed

text \<open>
  The condition on the token is needed. \<open>10000000000000000000000\<close> spells a number
  that is 0 \<open>mod 256\<close> and does not fit a \<open>long\<close>: \<open>strtol\<close> returns \<open>LONG_MAX\<close>,
  \<open>atoi\<close> returns \<open>-1\<close>, and the address is 255.
\<close>

theorem addr_truncated_to_8_bits_counterexample:
  "decimal_value ''10000000000000000000000'' = 10000000000000000000000
   \<and> (10000000000000000000000 :: int) mod 256 = 0
   \<and> atoi ''10000000000000000000000'' = - 1
   \<and> parse_args (tl [''rx_profile_demo'', ''-addr'', ''10000000000000000000000'']) init_locals
        = Inr \<lparr>addr = 255, mode = 0x03, freq = 0x03, channel = 0\<rparr>"
  by (simp add: init_locals_def atoi_eval)

subsection \<open>C9: the success path\<close>

text \<open>
  C9. When the loop runs through the arguments and \<open>begin\<close> reports success, \<open>main\<close>
  returns 0; the values printed are the locals written to the three slots and the
  address passed to \<open>begin\<close>; and \<open>show_register_settings\<close> is called before
  \<open>end\<close>.
\<close>

theorem success_path:
  assumes "parse_args (tl argv) init_locals = Inr l"
  shows "main True argv =
     Returned
       [Radio_set_debug_level 1, Cc1100_freq_select (freq l), Cc1100_mode_select (mode l),
        Cc1100_channel_select (channel l), Radio_begin (addr l),
        Printf ''Applied profile mode=0x%02X freq_sel=%d channel=%d addr=%d\<newline>''
          [Arg_int (mode l), Arg_int (freq l), Arg_int (channel l), Arg_int (uint (addr l))],
        Radio_show_register_settings, Radio_end] 0"
  using main_parsed [OF assms, of True] by simp

text \<open>The TPMS profile on channel 5 with address 9.\<close>

theorem success_path_witness:
  "main True [''rx_profile_demo'', ''-mTPMS'', ''-channel'', ''5'', ''-addr'', ''9''] =
     Returned
       [Radio_set_debug_level 1, Cc1100_freq_select 2, Cc1100_mode_select 7,
        Cc1100_channel_select 5, Radio_begin 9,
        Printf ''Applied profile mode=0x%02X freq_sel=%d channel=%d addr=%d\<newline>''
          [Arg_int 7, Arg_int 2, Arg_int 5, Arg_int 9],
        Radio_show_register_settings, Radio_end] 0"
proof -
  have h: "parse_args (tl [''rx_profile_demo'', ''-mTPMS'', ''-channel'', ''5'', ''-addr'', ''9''])
             init_locals = Inr \<lparr>addr = 9, mode = 7, freq = 2, channel = 5\<rparr>"
    by (simp add: init_locals_def atoi_eval)
  show ?thesis
    using success_path [OF h] by simp
qed

subsection \<open>C10: a value flag takes the next token, whatever it is\<close>

text \<open>
  C10. When \<open>-addr\<close>, \<open>-freq\<close> or \<open>-channel\<close> is followed by a token, that token
  is its value and the loop goes on behind it, also when the token is spelled like a
  flag. \<open>-addr -h\<close> sets the address to \<open>atoi\<close> of \<open>-h\<close>, which is 0, and prints
  no help; \<open>-freq -mTPMS\<close> sets \<open>freq\<close> to 0 and leaves \<open>mode\<close> at its default.
\<close>

theorem value_flag_takes_next_token:
  "(\<forall>pre l0 l1 v rest.
       parse_args pre l0 = Inr l1 \<longrightarrow>
         parse_args (pre @ ''-addr'' # v # rest) l0
           = parse_args rest (l1\<lparr>addr := word_of_int (atoi v)\<rparr>)
         \<and> parse_args (pre @ ''-freq'' # v # rest) l0
           = parse_args rest (l1\<lparr>freq := atoi v\<rparr>)
         \<and> parse_args (pre @ ''-channel'' # v # rest) l0
           = parse_args rest (l1\<lparr>channel := atoi v\<rparr>))
   \<and> atoi ''-h'' = 0
   \<and> parse_args (tl [prog, ''-addr'', ''-h'']) init_locals
        = Inr \<lparr>addr = 0, mode = 0x03, freq = 0x03, channel = 0\<rparr>
   \<and> main begin_result [prog, ''-addr'', ''-h''] \<noteq> Returned usage 0
   \<and> atoi ''-mTPMS'' = 0
   \<and> parse_args (tl [prog, ''-freq'', ''-mTPMS'']) init_locals
        = Inr \<lparr>addr = 1, mode = 0x03, freq = 0, channel = 0\<rparr>"
proof (intro conjI allI impI)
  fix pre l0 l1 v rest
  assume a: "parse_args pre l0 = Inr l1"
  show "parse_args (pre @ ''-addr'' # v # rest) l0
           = parse_args rest (l1\<lparr>addr := word_of_int (atoi v)\<rparr>)"
    by (simp add: parse_args_append [OF a])
  show "parse_args (pre @ ''-freq'' # v # rest) l0
           = parse_args rest (l1\<lparr>freq := atoi v\<rparr>)"
    by (simp add: parse_args_append [OF a])
  show "parse_args (pre @ ''-channel'' # v # rest) l0
           = parse_args rest (l1\<lparr>channel := atoi v\<rparr>)"
    by (simp add: parse_args_append [OF a])
next
  show "atoi ''-h'' = 0" by (simp add: atoi_eval)
next
  show "atoi ''-mTPMS'' = 0" by (simp add: atoi_eval)
next
  show "parse_args (tl [prog, ''-addr'', ''-h'']) init_locals
        = Inr \<lparr>addr = 0, mode = 0x03, freq = 0x03, channel = 0\<rparr>"
    by (simp add: init_locals_def atoi_eval)
next
  show "main begin_result [prog, ''-addr'', ''-h''] \<noteq> Returned usage 0"
    by (cases begin_result) (simp_all add: main_def init_locals_def atoi_eval usage_def)
next
  show "parse_args (tl [prog, ''-freq'', ''-mTPMS'']) init_locals
        = Inr \<lparr>addr = 1, mode = 0x03, freq = 0, channel = 0\<rparr>"
    by (simp add: init_locals_def atoi_eval)
qed

text \<open>\<open>-channel -mIoT -freq -h\<close> after \<open>-mOOK\<close>: neither profile nor help.\<close>

theorem value_flag_takes_next_token_witness:
  "parse_args [''-mOOK''] init_locals = Inr \<lparr>addr = 1, mode = 6, freq = 3, channel = 0\<rparr>
   \<and> parse_args ([''-mOOK''] @ ''-channel'' # ''-mIoT'' # [''-freq'', ''-h'']) init_locals
        = Inr \<lparr>addr = 1, mode = 6, freq = 0, channel = 0\<rparr>"
proof -
  have h: "parse_args [''-mOOK''] init_locals = Inr \<lparr>addr = 1, mode = 6, freq = 3, channel = 0\<rparr>"
    by (simp add: init_locals_def)
  from value_flag_takes_next_token [of "''rx_profile_demo''" True]
  have "\<forall>pre l0 l1 v rest.
       parse_args pre l0 = Inr l1 \<longrightarrow>
         parse_args (pre @ ''-addr'' # v # rest) l0
           = parse_args rest (l1\<lparr>addr := word_of_int (atoi v)\<rparr>)
         \<and> parse_args (pre @ ''-freq'' # v # rest) l0
           = parse_args rest (l1\<lparr>freq := atoi v\<rparr>)
         \<and> parse_args (pre @ ''-channel'' # v # rest) l0
           = parse_args rest (l1\<lparr>channel := atoi v\<rparr>)"
    by blast
  from this [rule_format, OF h, of "''-mIoT''" "[''-freq'', ''-h'']"] h show ?thesis
    by (simp add: atoi_eval)
qed

end
